theory Spec2Isabelle
  imports Complex_Main
begin

section \<open>Errors\<close>

text \<open>
  The exceptions that the modelled part of \<^verbatim>\<open>deepdrive_gym_env.py\<close> can raise.
  Python floats are modelled as \<^typ>\<open>real\<close> numbers (no rounding, no NaN, no infinity);
  \<open>time_passed\<close>, which the source allows to be \<^verbatim>\<open>None\<close>, is a \<^typ>\<open>real option\<close>.
  Arithmetic on \<^verbatim>\<open>None\<close> raises \<^verbatim>\<open>TypeError\<close>, float division by zero raises
  \<^verbatim>\<open>ZeroDivisionError\<close>, a float power whose result exceeds the float range raises
  \<^verbatim>\<open>OverflowError\<close>, a missing dictionary key raises \<^verbatim>\<open>KeyError\<close>.
\<close>

datatype error =
    ValueError
  | TypeError
  | KeyError
  | ZeroDivisionError
  | OverflowError
  | OldClientError
  | VersionMismatch
  | CouldNotConnect
  | ConnectFail

section \<open>DeepDriveRewardCalculator\<close>

definition SPEED_LIMIT_KPH :: real where
  "SPEED_LIMIT_KPH = 64"

definition clip :: "real \<Rightarrow> real" where
  "clip reward = min (max reward (- 100)) 100"

text \<open>
  The largest finite float, \<open>2 ^ 1024 - 2 ^ 971\<close>, and Python's \<^verbatim>\<open>x ** 2\<close> on a finite
  float \<open>x\<close>: the power raises \<^verbatim>\<open>OverflowError\<close> when its result is out of range
  (products, quotients and sums that are out of range raise nothing: they are infinite).
\<close>

definition float_max :: real where
  "float_max = (2 ^ 53 - 1) * 2 ^ 971"

definition float_pow2 :: "real \<Rightarrow> error + real" where
  "float_pow2 x = (if x ^ 2 > float_max then Inl OverflowError else Inr (x ^ 2))"

text \<open>
  \<^verbatim>\<open>get_speed_reward\<close>. In the branch for driving too fast the product is evaluated
  from the left, so an absent \<open>time_passed\<close> raises \<^verbatim>\<open>TypeError\<close> before
  \<^verbatim>\<open>speed_delta ** 2\<close> is computed. When \<open>cmps * 3600\<close> is itself out of the float
  range, \<open>speed_kph\<close> and \<open>speed_delta\<close> are infinite and the power of an infinite float
  raises nothing: the float result is then -100 or 100 by the sign of \<open>time_passed\<close>, as
  the clipped real product is, except at \<open>time_passed = 0\<close>, where it is NaN.
\<close>

definition get_speed_reward :: "real \<Rightarrow> real option \<Rightarrow> error + real" where
  "get_speed_reward cmps time_passed =
     (let speed_kph = cmps * 3600 / 100 / 1000;
          balance_coeff = 2 / 10;
          speed_delta = speed_kph - SPEED_LIMIT_KPH
      in case time_passed of
           None \<Rightarrow> Inl TypeError
         | Some tp \<Rightarrow>
             if speed_delta > 4 then
               (case (if \<bar>cmps * 3600\<bar> > float_max then Inr (speed_delta ^ 2)
                      else float_pow2 speed_delta) of
                  Inl e \<Rightarrow> Inl e
                | Inr squared \<Rightarrow>
                    Inr (clip (- 1 * balance_coeff * speed_kph * tp * squared)))
             else Inr (clip (balance_coeff * tp * speed_kph)))"

definition get_lane_deviation_penalty :: "real \<Rightarrow> real option \<Rightarrow> error + real" where
  "get_lane_deviation_penalty lane_deviation time_passed =
     (if lane_deviation < 0 then Inl ValueError
      else
        (case (case time_passed of
                 None \<Rightarrow> Inr 0
               | Some tp \<Rightarrow>
                   if lane_deviation > 200 then
                     (case float_pow2 lane_deviation of
                        Inl e \<Rightarrow> Inl e
                      | Inr squared \<Rightarrow> Inr ((1 / 10) * tp * squared / 100))
                   else Inr 0) of
           Inl e \<Rightarrow> Inl e
         | Inr lane_deviation_penalty \<Rightarrow> Inr (clip lane_deviation_penalty)))"

definition get_gforce_penalty :: "real \<Rightarrow> real option \<Rightarrow> error + real" where
  "get_gforce_penalty gforces time_passed =
     (if gforces < 0 then Inl ValueError
      else if gforces > 5 / 10 then
        (case time_passed of
           None \<Rightarrow> Inl TypeError
         | Some tp \<Rightarrow>
             (let time_weighted_gs = min (tp * gforces) 5;
                  balance_coeff = 24
              in Inr (clip (time_weighted_gs * balance_coeff))))
      else Inr (clip 0))"

definition get_progress_reward :: "real \<Rightarrow> real option \<Rightarrow> error + real" where
  "get_progress_reward progress time_passed =
     (case time_passed of
        None \<Rightarrow> Inr (clip (progress / 100 * 1))
      | Some tp \<Rightarrow>
          if tp = 0 then Inl ZeroDivisionError
          else (let step_velocity = progress / tp;
                    progress' = (if step_velocity < - 400 * 100 then 0 else progress)
                in Inr (clip (progress' / 100 * 1))))"

section \<open>Telemetry snapshot, Score and the environment state\<close>

text \<open>
  An observation \<open>obz\<close> is \<^verbatim>\<open>None\<close> or the dictionary built by
  \<^verbatim>\<open>preprocess_observation\<close>, which always holds the key \<^verbatim>\<open>'cameras'\<close> and is
  therefore never empty: \<^verbatim>\<open>if obz:\<close> is the test \<open>obz \<noteq> None\<close>. The record below holds
  the keys that the reward, lap and stuck code reads; \<open>None\<close> is an absent key
  (for \<open>lap_number\<close>, read with \<^verbatim>\<open>obz.get\<close>, also a \<^verbatim>\<open>None\<close> value).
\<close>

record telemetry =
  speed :: "real option"
  acceleration :: "real list option"
  distance_to_center_of_lane :: "real option"
  distance_along_route :: "real option"
  lap_number :: "int option"
  throttle :: "real option"

record score =
  total :: real
  gforce_penalty :: real
  speed_reward :: real
  lane_deviation_penalty :: real
  progress_reward :: real
  got_stuck :: bool
  start_time :: real
  end_time :: "real option"

text \<open>
  The fields of \<^verbatim>\<open>DeepDriveEnv\<close> that the modelled methods read or write. Three of them
  share a name with a dictionary key or a \<^verbatim>\<open>Score\<close> field and carry the prefix
  \<open>self_\<close>. The step counters start at 0 and are only incremented, hence \<^typ>\<open>nat\<close>.
  \<open>should_end_on_lap\<close> is only tested for truth (\<^verbatim>\<open>None\<close> counts as false).
  \<open>trial_scores\<close> holds the value each appended \<^verbatim>\<open>Score\<close> had when it was appended
  (the source appends a reference to the object); \<^verbatim>\<open>display_stats\<close>, logging and the
  dashboard queue are left out, they do not influence any value modelled here.
\<close>

record env =
  step_num :: nat
  prev_step_time :: "real option"
  self_start_time :: real
  last_forward_progress_time :: real
  steps_crawling_with_throttle_on :: nat
  steps_crawling :: nat
  self_distance_along_route :: real
  start_distance_along_route :: real
  score :: score
  self_lap_number :: "int option"
  prev_lap_score :: real
  should_end_on_lap :: bool
  should_benchmark :: bool
  done_benchmarking :: bool
  trial_scores :: "score list"

section \<open>Benchmark trials and lap statistics\<close>

text \<open>
  \<^verbatim>\<open>log_benchmark_trial\<close>: the argument \<open>t\<close> is the reading of \<^verbatim>\<open>time.time()\<close>. After the
  append, the loop that writes the CSV rows computes \<^verbatim>\<open>score.end_time - score.start_time\<close>
  for every entry of the list and raises \<^verbatim>\<open>TypeError\<close> on an entry whose \<open>end_time\<close> is
  \<^verbatim>\<open>None\<close>. The summary statistics are only logged and written to the file; opening and
  writing the file are taken to succeed.
\<close>

definition log_benchmark_trial :: "real \<Rightarrow> env \<Rightarrow> error + env" where
  "log_benchmark_trial t s =
     (let sc = (score s)\<lparr>end_time := Some t\<rparr>;
          s' = s\<lparr>score := sc, trial_scores := trial_scores s @ [sc]\<rparr>
      in if list_all (\<lambda>entry. end_time entry \<noteq> None) (trial_scores s')
         then Inr s' else Inl TypeError)"

definition compute_lap_statistics ::
  "real \<Rightarrow> bool \<Rightarrow> telemetry option \<Rightarrow> env \<Rightarrow> error + (bool \<times> env)" where
  "compute_lap_statistics t done obz s =
     (case obz of
        None \<Rightarrow> Inr (done, s)
      | Some ob \<Rightarrow>
          (case (case (lap_number ob, self_lap_number s) of
                   (Some new_lap, Some old_lap) \<Rightarrow>
                     if old_lap < new_lap then
                       (let s1 = s\<lparr>prev_lap_score := total (score s)\<rparr>
                        in case (if should_benchmark s1 then
                                   (case log_benchmark_trial t s1 of
                                      Inl e \<Rightarrow> Inl e
                                    | Inr s2 \<Rightarrow>
                                        Inr (True,
                                             if length (trial_scores s2) = 1000
                                             then s2\<lparr>done_benchmarking := True\<rparr> else s2))
                                 else Inr (done, s1)) of
                             Inl e \<Rightarrow> Inl e
                           | Inr (done2, s3) \<Rightarrow>
                               Inr (if should_end_on_lap s3 then True else done2, s3))
                     else Inr (done, s)
                 | _ \<Rightarrow> Inr (done, s)) of
             Inl e \<Rightarrow> Inl e
           | Inr (done', s') \<Rightarrow> Inr (done', s'\<lparr>self_lap_number := lap_number ob\<rparr>)))"

section \<open>Per-step reward\<close>

definition dot :: "real list \<Rightarrow> real list \<Rightarrow> real" where
  "dot a b = sum_list (map (\<lambda>(x, y). x * y) (zip a b))"

text \<open>
  The four methods of \<^verbatim>\<open>DeepDriveEnv\<close> that wrap the calculator; they carry the prefix
  \<open>env_\<close> because the calculator's static methods have the same names. Each returns the
  term and the updated environment, or the exception raised by the calculator.
\<close>

definition env_get_progress_reward ::
  "telemetry \<Rightarrow> real option \<Rightarrow> env \<Rightarrow> error + (real \<times> env)" where
  "env_get_progress_reward obz time_passed s =
     (let progress_reward' = 0 in
      case distance_along_route obz of
        None \<Rightarrow>
          Inr (progress_reward',
               s\<lparr>score := (score s)\<lparr>progress_reward :=
                    progress_reward (score s) + progress_reward'\<rparr>\<rparr>)
      | Some d \<Rightarrow>
          (let dist = d - start_distance_along_route s;
               progress = dist - self_distance_along_route s;
               s1 = s\<lparr>self_distance_along_route := dist\<rparr>
           in case get_progress_reward progress time_passed of
                Inl e \<Rightarrow> Inl e
              | Inr discarded \<Rightarrow>
                  Inr (progress_reward',
                       s1\<lparr>score := (score s1)\<lparr>progress_reward :=
                             progress_reward (score s1) + progress_reward'\<rparr>\<rparr>)))"

definition env_get_gforce_penalty ::
  "telemetry \<Rightarrow> real option \<Rightarrow> env \<Rightarrow> error + (real \<times> env)" where
  "env_get_gforce_penalty obz time_passed s =
     (case (case (acceleration obz, time_passed) of
              (Some a, Some tp) \<Rightarrow>
                (let gforces = sqrt (dot a a) / 980
                 in get_gforce_penalty gforces time_passed)
            | _ \<Rightarrow> Inr 0) of
        Inl e \<Rightarrow> Inl e
      | Inr gforce_penalty' \<Rightarrow>
          Inr (gforce_penalty',
               s\<lparr>score := (score s)\<lparr>gforce_penalty :=
                    gforce_penalty (score s) + gforce_penalty'\<rparr>\<rparr>))"

definition env_get_lane_deviation_penalty ::
  "telemetry \<Rightarrow> real option \<Rightarrow> env \<Rightarrow> error + (real \<times> env)" where
  "env_get_lane_deviation_penalty obz time_passed s =
     (case (case distance_to_center_of_lane obz of
              Some ld \<Rightarrow> get_lane_deviation_penalty ld time_passed
            | None \<Rightarrow> Inr 0) of
        Inl e \<Rightarrow> Inl e
      | Inr lane_deviation_penalty' \<Rightarrow>
          Inr (lane_deviation_penalty',
               s\<lparr>score := (score s)\<lparr>lane_deviation_penalty :=
                    lane_deviation_penalty (score s) + lane_deviation_penalty'\<rparr>\<rparr>))"

definition env_get_speed_reward ::
  "telemetry \<Rightarrow> real option \<Rightarrow> env \<Rightarrow> error + (real \<times> env)" where
  "env_get_speed_reward obz time_passed s =
     (case (case (speed obz, time_passed) of
              (Some sp, Some tp) \<Rightarrow> get_speed_reward sp time_passed
            | _ \<Rightarrow> Inr 0) of
        Inl e \<Rightarrow> Inl e
      | Inr speed_reward' \<Rightarrow>
          Inr (speed_reward',
               s\<lparr>score := (score s)\<lparr>speed_reward :=
                    speed_reward (score s) + speed_reward'\<rparr>\<rparr>))"

text \<open>
  \<^verbatim>\<open>get_reward(obz, now)\<close>: \<open>clock\<close> is the reading of \<^verbatim>\<open>time.time()\<close> that the grace
  period test takes (the source reads the clock again there instead of using \<open>now\<close>).
\<close>

definition get_reward ::
  "telemetry option \<Rightarrow> real \<Rightarrow> real \<Rightarrow> env \<Rightarrow> error + (real \<times> env)" where
  "get_reward obz now clock s =
     (case obz of
        None \<Rightarrow> Inr (0, s)
      | Some ob \<Rightarrow>
          (let time_passed = (case prev_step_time s of
                                Some p \<Rightarrow> Some (now - p)
                              | None \<Rightarrow> None)
           in case (if clock - self_start_time s < 25 / 10 then Inr (0, s)
                    else
                      (case env_get_progress_reward ob time_passed s of
                         Inl e \<Rightarrow> Inl e
                       | Inr (progress_reward', s1) \<Rightarrow>
                      (case env_get_gforce_penalty ob time_passed s1 of
                         Inl e \<Rightarrow> Inl e
                       | Inr (gforce_penalty', s2) \<Rightarrow>
                      (case env_get_lane_deviation_penalty ob time_passed s2 of
                         Inl e \<Rightarrow> Inl e
                       | Inr (lane_deviation_penalty', s3) \<Rightarrow>
                      (case env_get_speed_reward ob time_passed s3 of
                         Inl e \<Rightarrow> Inl e
                       | Inr (speed_reward', s4) \<Rightarrow>
                           Inr (0 + (progress_reward' + speed_reward'
                                     - gforce_penalty' - lane_deviation_penalty'), s4)))))) of
                Inl e \<Rightarrow> Inl e
              | Inr (reward, s') \<Rightarrow>
                  Inr (reward, s'\<lparr>score := (score s')\<lparr>total := total (score s') + reward\<rparr>\<rparr>)))"

section \<open>Stuck detection and the step\<close>

definition reset_forward_progress :: "real \<Rightarrow> env \<Rightarrow> env" where
  "reset_forward_progress t s =
     s\<lparr>last_forward_progress_time := t,
       steps_crawling_with_throttle_on := 0,
       steps_crawling := 0\<rparr>"

text \<open>
  The clock readings of one step, in the order in which the step takes them:
  \<open>now\<close> in \<^verbatim>\<open>_step\<close>, \<open>reward_clock\<close> in \<^verbatim>\<open>get_reward\<close>, \<open>lap_trial_clock\<close> in the
  \<^verbatim>\<open>log_benchmark_trial\<close> called by \<^verbatim>\<open>compute_lap_statistics\<close>, \<open>stuck_clock\<close> in the
  comparison of \<^verbatim>\<open>is_stuck\<close>, \<open>reset_clock\<close> in \<^verbatim>\<open>reset_forward_progress\<close> and
  \<open>stuck_trial_clock\<close> in the \<^verbatim>\<open>log_benchmark_trial\<close> called by \<^verbatim>\<open>is_stuck\<close>.
\<close>

record readings =
  now :: real
  reward_clock :: real
  lap_trial_clock :: real
  stuck_clock :: real
  reset_clock :: real
  stuck_trial_clock :: real

text \<open>
  \<^verbatim>\<open>is_stuck(obz)\<close>: \<open>test_benchmark_write\<close> says whether \<^verbatim>\<open>TEST_BENCHMARK_WRITE\<close> is in
  the process environment. \<^verbatim>\<open>obz['speed']\<close> and \<^verbatim>\<open>obz['throttle']\<close> raise
  \<^verbatim>\<open>KeyError\<close> when the key is absent.
\<close>

definition is_stuck ::
  "bool \<Rightarrow> readings \<Rightarrow> telemetry option \<Rightarrow> env \<Rightarrow> error + (bool \<times> env)" where
  "is_stuck test_benchmark_write ts obz s =
     (if test_benchmark_write then
        (case log_benchmark_trial (stuck_trial_clock ts)
                (s\<lparr>score := (score s)\<lparr>got_stuck := True\<rparr>\<rparr>) of
           Inl e \<Rightarrow> Inl e
         | Inr s' \<Rightarrow> Inr (True, s'))
      else
        (case obz of
           None \<Rightarrow> Inr (False, s)
         | Some ob \<Rightarrow>
             (case speed ob of
                None \<Rightarrow> Inl KeyError
              | Some sp \<Rightarrow>
                  if sp < 100 then
                    (let s1 = s\<lparr>steps_crawling := steps_crawling s + 1\<rparr>
                     in case throttle ob of
                          None \<Rightarrow> Inl KeyError
                        | Some th \<Rightarrow>
                            (let s2 = (if th > 0
                                       then s1\<lparr>steps_crawling_with_throttle_on :=
                                               steps_crawling_with_throttle_on s1 + 1\<rparr>
                                       else s1)
                             in if stuck_clock ts - last_forward_progress_time s2 > 1 \<and>
                                   real (steps_crawling_with_throttle_on s2)
                                     / real (steps_crawling s2) > 8 / 10
                                then
                                  (let s3 = reset_forward_progress (reset_clock ts) s2
                                   in if should_benchmark s3 then
                                        (case log_benchmark_trial (stuck_trial_clock ts)
                                                (s3\<lparr>score := (score s3)\<lparr>got_stuck := True\<rparr>\<rparr>) of
                                           Inl e \<Rightarrow> Inl e
                                         | Inr s4 \<Rightarrow> Inr (True, s4))
                                      else Inr (True, s3))
                                else Inr (False, s2)))
                  else Inr (False, reset_forward_progress (reset_clock ts) s))))"

text \<open>
  \<^verbatim>\<open>_step(action)\<close> from the observation on: sending the control values and reading the
  observation are calls into the simulator client, so \<open>obz\<close> is an argument. The result is
  the reward and the \<open>done\<close> flag that the step returns, with the environment after the
  step; an exception ends the step.
\<close>

definition step ::
  "bool \<Rightarrow> readings \<Rightarrow> telemetry option \<Rightarrow> env \<Rightarrow> error + (real \<times> bool \<times> env)" where
  "step test_benchmark_write ts obz s =
     (case get_reward obz (now ts) (reward_clock ts) s of
        Inl e \<Rightarrow> Inl e
      | Inr (reward, s1) \<Rightarrow>
          (case compute_lap_statistics (lap_trial_clock ts) False obz s1 of
             Inl e \<Rightarrow> Inl e
           | Inr (done, s2) \<Rightarrow>
               (let s3 = s2\<lparr>prev_step_time := Some (now ts)\<rparr>
                in case is_stuck test_benchmark_write ts obz s3 of
                     Inl e \<Rightarrow> Inl e
                   | Inr (stuck, s4) \<Rightarrow>
                       (let done' = (if stuck then True else done);
                            reward' = (if stuck then reward - (- 10000) else reward)
                        in Inr (reward', done', s4\<lparr>step_num := step_num s4 + 1\<rparr>)))))"

section \<open>Connection handshake and capture bootstrap\<close>

text \<open>
  The value returned by \<^verbatim>\<open>deepdrive_client.create\<close>: an \<^verbatim>\<open>int\<close> (what an old client
  library returns), a false value (\<^verbatim>\<open>None\<close> or an empty dictionary), or a non-empty
  dictionary. Of the dictionary the three keys that \<^verbatim>\<open>_connect\<close> reads are modelled;
  \<open>None\<close> is an absent key, and \<open>max_capture_resolution = Some 0\<close> stands for a false value
  under that key.
\<close>

record conn_props =
  client_id :: "int option"
  max_capture_resolution :: "int option"
  server_protocol_version :: "string option"

datatype response = IntResponse int | EmptyResponse | DictResponse conn_props

record connection =
  connection_props :: response
  self_client_id :: "int option"
  client_version :: string

fun truthy :: "response \<Rightarrow> bool" where
  "truthy (IntResponse n) = (n \<noteq> 0)"
| "truthy EmptyResponse = False"
| "truthy (DictResponse d) = True"

text \<open>
  The nested function \<^verbatim>\<open>_connect\<close> of \<^verbatim>\<open>connect\<close>; \<open>r\<close> is what
  \<^verbatim>\<open>deepdrive_client.create\<close> returns on this call.
\<close>

definition inner_connect :: "response \<Rightarrow> connection \<Rightarrow> error + connection" where
  "inner_connect r s =
     (let s1 = s\<lparr>connection_props := r\<rparr>
      in case r of
           IntResponse n \<Rightarrow> Inl OldClientError
         | EmptyResponse \<Rightarrow> Inr s1
         | DictResponse d \<Rightarrow>
             (case max_capture_resolution d of
                None \<Rightarrow> Inl KeyError
              | Some m \<Rightarrow>
                  if m = 0 then Inr s1
                  else
                    (case client_id d of
                       None \<Rightarrow> Inl KeyError
                     | Some cid \<Rightarrow>
                         (case server_protocol_version d of
                            None \<Rightarrow> Inl KeyError
                          | Some server_version \<Rightarrow>
                              if client_version s1 \<noteq> server_version
                              then Inl VersionMismatch
                              else Inr (s1\<lparr>self_client_id := Some cid\<rparr>)))))"

definition max_cxn_attempts :: nat where
  "max_cxn_attempts = 10"

text \<open>
  The retry loop of \<^verbatim>\<open>connect\<close>: \<open>create k\<close> is the response to the \<open>k\<close>-th call of
  \<^verbatim>\<open>deepdrive_client.create\<close> (call 0 is the one before the loop), \<open>random k\<close> the
  value of \<^verbatim>\<open>random.random()\<close> drawn in iteration \<open>k\<close>, and \<open>slept\<close> the arguments of
  \<^verbatim>\<open>time.sleep\<close> so far. The result is the exception or the connection state at the end
  of the loop, with the list of sleeps.
\<close>

function connect_retry ::
  "(nat \<Rightarrow> response) \<Rightarrow> (nat \<Rightarrow> real) \<Rightarrow> nat \<Rightarrow> connection \<Rightarrow> real list
     \<Rightarrow> (error + connection) \<times> real list" where
  "connect_retry create random cxn_attempts s slept =
     (if truthy (connection_props s) then (Inr s, slept)
      else
        (let cxn_attempts' = cxn_attempts + 1;
             sleep = real cxn_attempts' + random cxn_attempts' * 2;
             slept' = slept @ [sleep]
         in case inner_connect (create cxn_attempts') s of
              Inl e \<Rightarrow> (Inl e, slept')
            | Inr s' \<Rightarrow>
                if cxn_attempts' \<ge> max_cxn_attempts then (Inl CouldNotConnect, slept')
                else connect_retry create random cxn_attempts' s' slept'))"
  by pat_completeness auto
termination
  by (relation "measure (\<lambda>(create, random, cxn_attempts, s, slept).
                  max_cxn_attempts - cxn_attempts)")
    (auto simp: max_cxn_attempts_def)

declare connect_retry.simps [simp del]

text \<open>
  \<^verbatim>\<open>connect\<close> up to the end of its retry loop (the camera registration and the capture
  bootstrap follow it in the source).
\<close>

definition connect_handshake ::
  "(nat \<Rightarrow> response) \<Rightarrow> (nat \<Rightarrow> real) \<Rightarrow> connection
     \<Rightarrow> (error + connection) \<times> real list" where
  "connect_handshake create random s =
     (case inner_connect (create 0) s of
        Inl e \<Rightarrow> (Inl e, [])
      | Inr s' \<Rightarrow> connect_retry create random 0 s' [])"

text \<open>
  \<^verbatim>\<open>reset_capture\<close>: \<open>reset k\<close> says whether the \<open>k\<close>-th call of
  \<^verbatim>\<open>deepdrive_capture.reset\<close> (counted from 0) returns a true value; \<open>n\<close> and \<open>sleep\<close> are
  the loop variables, \<open>slept\<close> the arguments of \<^verbatim>\<open>time.sleep\<close> so far.
\<close>

fun reset_capture_loop ::
  "(nat \<Rightarrow> bool) \<Rightarrow> nat \<Rightarrow> real \<Rightarrow> real list \<Rightarrow> (error + unit) \<times> real list" where
  "reset_capture_loop reset 0 sleep slept = (Inl ConnectFail, slept)"
| "reset_capture_loop reset (Suc n) sleep slept =
     (if reset 0 then (Inr (), slept)
      else reset_capture_loop (\<lambda>i. reset (Suc i)) n (sleep * 2) (slept @ [sleep * 2]))"

definition reset_capture :: "(nat \<Rightarrow> bool) \<Rightarrow> (error + unit) \<times> real list" where
  "reset_capture reset = reset_capture_loop reset 10 (1 / 10) []"

text \<open>The argument of \<^verbatim>\<open>time.sleep\<close> in iteration \<open>k\<close> of the retry loop of \<^verbatim>\<open>connect\<close>.\<close>

definition backoff :: "(nat \<Rightarrow> real) \<Rightarrow> nat \<Rightarrow> real" where
  "backoff random k = real k + random k * 2"

text \<open>
  A response with which \<^verbatim>\<open>_connect\<close> succeeds for a client of version \<open>v\<close>: a true
  \<open>max_capture_resolution\<close>, a client id and the same protocol version.
\<close>

definition usable :: "conn_props \<Rightarrow> int \<Rightarrow> string \<Rightarrow> bool" where
  "usable d cid v \<longleftrightarrow>
     (case max_capture_resolution d of None \<Rightarrow> False | Some r \<Rightarrow> r \<noteq> 0) \<and>
     client_id d = Some cid \<and> server_protocol_version d = Some v"

section \<open>Initial states and sample inputs\<close>

text \<open>
  \<^verbatim>\<open>Score()\<close> and the state that \<^verbatim>\<open>DeepDriveEnv.__init__\<close> sets up; the arguments are the
  clock readings taken for \<open>start_time\<close>, by \<^verbatim>\<open>reset_forward_progress\<close> and by \<^verbatim>\<open>Score()\<close>.
\<close>

definition new_score :: "real \<Rightarrow> score" where
  "new_score t =
     \<lparr>total = 0, gforce_penalty = 0, speed_reward = 0, lane_deviation_penalty = 0,
      progress_reward = 0, got_stuck = False, start_time = t, end_time = None\<rparr>"

definition init_env :: "real \<Rightarrow> real \<Rightarrow> real \<Rightarrow> env" where
  "init_env t_start t_progress t_score =
     \<lparr>step_num = 0, prev_step_time = None, self_start_time = t_start,
      last_forward_progress_time = t_progress,
      steps_crawling_with_throttle_on = 0, steps_crawling = 0,
      self_distance_along_route = 0, start_distance_along_route = 0,
      score = new_score t_score, self_lap_number = None, prev_lap_score = 0,
      should_end_on_lap = False, should_benchmark = False, done_benchmarking = False,
      trial_scores = []\<rparr>"

text \<open>An observation with none of the telemetry keys, and a step whose clock readings coincide.\<close>

definition no_telemetry :: telemetry where
  "no_telemetry =
     \<lparr>speed = None, acceleration = None, distance_to_center_of_lane = None,
      distance_along_route = None, lap_number = None, throttle = None\<rparr>"

definition readings_at :: "real \<Rightarrow> readings" where
  "readings_at t =
     \<lparr>now = t, reward_clock = t, lap_trial_clock = t, stuck_clock = t, reset_clock = t,
      stuck_trial_clock = t\<rparr>"

text \<open>The connection fields as \<^verbatim>\<open>__init__\<close> leaves them, and a complete server response.\<close>

definition fresh_connection :: "string \<Rightarrow> connection" where
  "fresh_connection v =
     \<lparr>connection_props = EmptyResponse, self_client_id = None, client_version = v\<rparr>"

definition good_props :: "string \<Rightarrow> conn_props" where
  "good_props v =
     \<lparr>client_id = Some 1, max_capture_resolution = Some 3840,
      server_protocol_version = Some v\<rparr>"

section \<open>Properties of the reward terms\<close>

lemma clip_bounds: "- 100 \<le> clip r \<and> clip r \<le> 100"
  by (simp add: clip_def)

lemma clip_zero: "clip 0 = 0"
  by (simp add: clip_def)

lemma speed_reward_in_range:
  "get_speed_reward cmps time_passed = Inr v \<Longrightarrow> - 100 \<le> v \<and> v \<le> 100"
  using clip_bounds
  by (auto simp: get_speed_reward_def float_pow2_def Let_def
      split: option.splits if_splits sum.splits)

lemma lane_deviation_penalty_in_range:
  "get_lane_deviation_penalty lane_deviation time_passed = Inr v \<Longrightarrow> - 100 \<le> v \<and> v \<le> 100"
  using clip_bounds
  by (auto simp: get_lane_deviation_penalty_def float_pow2_def
      split: option.splits if_splits sum.splits)

lemma gforce_penalty_in_range:
  "get_gforce_penalty gforces time_passed = Inr v \<Longrightarrow> - 100 \<le> v \<and> v \<le> 100"
  using clip_bounds
  by (auto simp: get_gforce_penalty_def Let_def split: if_splits option.splits)

lemma progress_reward_in_range:
  "get_progress_reward progress time_passed = Inr v \<Longrightarrow> - 100 \<le> v \<and> v \<le> 100"
  using clip_bounds
  by (auto simp: get_progress_reward_def Let_def split: if_splits option.splits)

lemma speed_reward_returns:
  "(cmps * 3600 / 100 / 1000 - 64) ^ 2 \<le> float_max \<Longrightarrow>
   \<exists>v. get_speed_reward cmps (Some tp) = Inr v"
  by (simp add: get_speed_reward_def float_pow2_def SPEED_LIMIT_KPH_def Let_def)

lemma lane_deviation_penalty_returns:
  "0 \<le> lane_deviation \<Longrightarrow> lane_deviation ^ 2 \<le> float_max \<Longrightarrow>
   \<exists>v. get_lane_deviation_penalty lane_deviation time_passed = Inr v"
  by (cases time_passed) (simp_all add: get_lane_deviation_penalty_def float_pow2_def)

text \<open>
  Claim C6, as the code has it. On valid inputs (finite numbers) each of the four terms of
  the reward calculator returns a value in the closed interval from -100 to 100. Valid
  means: a
  non-negative lane deviation and g-force magnitude; a speed and a lane deviation whose
  squares, of \<open>speed_kph - 64\<close> and of the lane deviation, do not exceed the largest
  float; a numeric \<open>time_passed\<close> for the speed reward and the g-force penalty (both
  multiply by it); any \<open>time_passed\<close>, also an absent one, for the lane deviation penalty;
  any \<open>time_passed\<close> but 0, also an absent one, for the progress reward, which divides by
  it.
\<close>

theorem reward_terms_clipped:
  assumes "0 \<le> lane_deviation" and "0 \<le> gforces" and "progress_time \<noteq> Some 0"
    and "(cmps * 3600 / 100 / 1000 - 64) ^ 2 \<le> float_max"
    and "lane_deviation ^ 2 \<le> float_max"
  shows "(\<exists>v. get_speed_reward cmps (Some tp) = Inr v \<and> - 100 \<le> v \<and> v \<le> 100) \<and>
         (\<exists>v. get_lane_deviation_penalty lane_deviation lane_time = Inr v
               \<and> - 100 \<le> v \<and> v \<le> 100) \<and>
         (\<exists>v. get_gforce_penalty gforces (Some tp) = Inr v \<and> - 100 \<le> v \<and> v \<le> 100) \<and>
         (\<exists>v. get_progress_reward progress progress_time = Inr v
               \<and> - 100 \<le> v \<and> v \<le> 100)"
proof -
  obtain a where a: "get_speed_reward cmps (Some tp) = Inr a"
    using speed_reward_returns [OF assms(4)] by blast
  obtain b where b: "get_lane_deviation_penalty lane_deviation lane_time = Inr b"
    using lane_deviation_penalty_returns [OF assms(1,5)] by blast
  have "\<exists>c. get_gforce_penalty gforces (Some tp) = Inr c"
    using assms(2) by (simp add: get_gforce_penalty_def Let_def)
  then obtain c where c: "get_gforce_penalty gforces (Some tp) = Inr c" by blast
  have "\<exists>d. get_progress_reward progress progress_time = Inr d"
    using assms(3) by (cases progress_time) (simp_all add: get_progress_reward_def Let_def)
  then obtain d where d: "get_progress_reward progress progress_time = Inr d" by blast
  show ?thesis
    using a b c d speed_reward_in_range [OF a] lane_deviation_penalty_in_range [OF b]
      gforce_penalty_in_range [OF c] progress_reward_in_range [OF d]
    by simp
qed

theorem reward_terms_clipped_witness:
  "(0::real) \<le> 300 \<and> (0::real) \<le> 1 \<and> Some (1::real) \<noteq> Some 0 \<and>
   (2000 * 3600 / 100 / 1000 - 64) ^ 2 \<le> float_max \<and> 300 ^ 2 \<le> float_max \<and>
   (\<exists>v. get_speed_reward 2000 (Some 1) = Inr v \<and> - 100 \<le> v \<and> v \<le> 100) \<and>
   (\<exists>v. get_lane_deviation_penalty 300 (Some 1) = Inr v \<and> - 100 \<le> v \<and> v \<le> 100) \<and>
   (\<exists>v. get_gforce_penalty 1 (Some 1) = Inr v \<and> - 100 \<le> v \<and> v \<le> 100) \<and>
   (\<exists>v. get_progress_reward 500000 (Some 1) = Inr v \<and> - 100 \<le> v \<and> v \<le> 100) \<and>
   get_speed_reward 2000 (Some 1) = Inr (- 100) \<and>
   get_lane_deviation_penalty 300 (Some 1) = Inr 90 \<and>
   get_gforce_penalty 1 (Some 1) = Inr 24 \<and>
   get_progress_reward 500000 (Some 1) = Inr 100"
proof -
  have h1: "(0::real) \<le> 300" and h2: "(0::real) \<le> 1" and h3: "Some (1::real) \<noteq> Some 0"
    by simp_all
  have h4: "((2000::real) * 3600 / 100 / 1000 - 64) ^ 2 \<le> float_max"
    and h5: "(300::real) ^ 2 \<le> float_max"
    by (simp_all add: float_max_def)
  have e: "get_speed_reward 2000 (Some 1) = Inr (- 100)"
    "get_lane_deviation_penalty 300 (Some 1) = Inr 90"
    "get_gforce_penalty 1 (Some 1) = Inr 24"
    "get_progress_reward 500000 (Some 1) = Inr 100"
    by (simp_all add: get_speed_reward_def get_lane_deviation_penalty_def
        get_gforce_penalty_def get_progress_reward_def SPEED_LIMIT_KPH_def clip_def Let_def
        float_pow2_def float_max_def)
  from reward_terms_clipped [OF h1 h2 h3 h4 h5, of 1 "Some 1" 500000] h1 h2 h3 h4 h5 e
  show ?thesis by blast
qed

text \<open>
  With \<open>time_passed = 0\<close> the progress reward divides by zero and returns no value; with
  a speed of 1e200 cm/s or a lane deviation of 1.4e154 cm the square overflows and the
  term raises \<^verbatim>\<open>OverflowError\<close>.
\<close>

theorem reward_terms_without_value:
  "get_progress_reward 500 (Some 0) = Inl ZeroDivisionError \<and>
   get_speed_reward (10 ^ 200) (Some 1) = Inl OverflowError \<and>
   get_lane_deviation_penalty (14 * 10 ^ 153) (Some 1) = Inl OverflowError"
  by (simp add: get_progress_reward_def get_speed_reward_def get_lane_deviation_penalty_def
      float_pow2_def float_max_def SPEED_LIMIT_KPH_def Let_def)

text \<open>
  Claim C8. With a positive \<open>time_passed\<close>, the progress reward is 0 when
  \<open>progress / time_passed\<close> is below -40000 cm/s, and otherwise \<open>progress / 100\<close>
  clipped to the interval from -100 to 100.
\<close>

theorem progress_reward_backward_jump:
  assumes "0 < time_passed"
  shows "get_progress_reward progress (Some time_passed) =
           Inr (if progress / time_passed < - 40000 then 0
                else min (max (progress / 100) (- 100)) 100)"
  using assms by (simp add: get_progress_reward_def Let_def clip_def)

theorem progress_reward_backward_jump_witness:
  "(0::real) < 1 \<and> get_progress_reward (- 500000) (Some 1) = Inr 0 \<and>
   get_progress_reward (- 500000) (Some 1) =
     Inr (if - 500000 / 1 < - (40000::real) then 0
          else min (max (- 500000 / 100) (- 100)) 100)"
proof -
  have h: "(0::real) < 1" by simp
  from progress_reward_backward_jump [OF h, of "- 500000"] h show ?thesis by simp
qed

section \<open>The retry loops\<close>

lemma connect_retry_unfold_truthy:
  "truthy (connection_props s) \<Longrightarrow> connect_retry create random c s slept = (Inr s, slept)"
  by (subst connect_retry.simps) simp

lemma connect_retry_unfold_raise:
  "\<not> truthy (connection_props s) \<Longrightarrow> inner_connect (create (Suc c)) s = Inl e \<Longrightarrow>
   connect_retry create random c s slept = (Inl e, slept @ [backoff random (Suc c)])"
  by (subst connect_retry.simps) (simp add: backoff_def Let_def)

lemma connect_retry_unfold_last:
  "\<not> truthy (connection_props s) \<Longrightarrow> inner_connect (create (Suc c)) s = Inr s' \<Longrightarrow>
   10 \<le> Suc c \<Longrightarrow>
   connect_retry create random c s slept =
     (Inl CouldNotConnect, slept @ [backoff random (Suc c)])"
  by (subst connect_retry.simps) (simp add: backoff_def Let_def max_cxn_attempts_def)

lemma connect_retry_unfold_again:
  "\<not> truthy (connection_props s) \<Longrightarrow> inner_connect (create (Suc c)) s = Inr s' \<Longrightarrow>
   Suc c < 10 \<Longrightarrow>
   connect_retry create random c s slept =
     connect_retry create random (Suc c) s' (slept @ [backoff random (Suc c)])"
  by (subst connect_retry.simps) (simp add: backoff_def Let_def max_cxn_attempts_def)

lemma inner_connect_usable:
  "usable d cid (client_version s) \<Longrightarrow>
   inner_connect (DictResponse d) s =
     Inr (s\<lparr>connection_props := DictResponse d, self_client_id := Some cid\<rparr>)"
  by (auto simp: usable_def inner_connect_def Let_def split: option.splits)

lemma connect_retry_exhaust:
  assumes "c < 10" and "\<not> truthy (connection_props s)"
    and "\<forall>i. c < i \<and> i \<le> 10 \<longrightarrow> create i = EmptyResponse"
  shows "connect_retry create random c s slept =
           (Inl CouldNotConnect, slept @ map (backoff random) [Suc c..<11])"
  using assms
proof (induction "10 - c" arbitrary: c s slept)
  case 0
  then show ?case by simp
next
  case (Suc k)
  have e: "create (Suc c) = EmptyResponse" using Suc.prems by simp
  show ?case
  proof (cases "Suc c = 10")
    case True
    then have c9: "c = 9" by simp
    show ?thesis
      using Suc.prems(2) e
      by (subst connect_retry.simps)
        (simp add: c9 inner_connect_def max_cxn_attempts_def backoff_def Let_def)
  next
    case False
    then have lt: "Suc c < 10" using Suc.prems(1) by simp
    have k: "k = 10 - Suc c" using Suc.hyps(2) by simp
    have ih: "connect_retry create random (Suc c) (s\<lparr>connection_props := EmptyResponse\<rparr>)
                (slept @ [backoff random (Suc c)]) =
              (Inl CouldNotConnect,
               (slept @ [backoff random (Suc c)]) @ map (backoff random) [Suc (Suc c)..<11])"
      using Suc.prems(3) by (intro Suc.hyps(1) [OF k lt]) simp_all
    have u: "[Suc c..<11] = Suc c # [Suc (Suc c)..<11]"
      using lt by (simp add: upt_conv_Cons)
    show ?thesis
      using Suc.prems(2) e lt ih
      by (subst connect_retry.simps)
        (simp add: inner_connect_def max_cxn_attempts_def backoff_def Let_def u del: upt_Suc)
  qed
qed

lemma connect_retry_success:
  assumes "c < m" and "m < 10" and "\<not> truthy (connection_props s)"
    and "\<forall>i. c < i \<and> i < m \<longrightarrow> create i = EmptyResponse"
    and "create m = DictResponse d" and "usable d cid (client_version s)"
  shows "connect_retry create random c s slept =
           (Inr (s\<lparr>connection_props := DictResponse d, self_client_id := Some cid\<rparr>),
            slept @ map (backoff random) [Suc c..<Suc m])"
  using assms
proof (induction "m - c" arbitrary: c s slept)
  case 0
  then show ?case by simp
next
  case (Suc k)
  show ?case
  proof (cases "Suc c = m")
    case True
    have ic: "inner_connect (create (Suc c)) s =
                Inr (s\<lparr>connection_props := DictResponse d, self_client_id := Some cid\<rparr>)"
      using True Suc.prems(5,6) by (simp add: inner_connect_usable)
    have nxt: "connect_retry create random (Suc c)
                 (s\<lparr>connection_props := DictResponse d, self_client_id := Some cid\<rparr>)
                 (slept @ [backoff random (Suc c)]) =
               (Inr (s\<lparr>connection_props := DictResponse d, self_client_id := Some cid\<rparr>),
                slept @ [backoff random (Suc c)])"
      by (subst connect_retry.simps) simp
    show ?thesis
      using Suc.prems(2,3) True ic nxt
      by (subst connect_retry.simps)
        (auto simp: max_cxn_attempts_def backoff_def Let_def)
  next
    case False
    then have lt: "Suc c < m" using Suc.prems(1) by simp
    have e: "create (Suc c) = EmptyResponse" using Suc.prems(4) lt by simp
    have k: "k = m - Suc c" using Suc.hyps(2) by simp
    let ?s1 = "s\<lparr>connection_props := EmptyResponse\<rparr>"
    have ih: "connect_retry create random (Suc c) ?s1 (slept @ [backoff random (Suc c)]) =
              (Inr (?s1\<lparr>connection_props := DictResponse d, self_client_id := Some cid\<rparr>),
               (slept @ [backoff random (Suc c)]) @ map (backoff random) [Suc (Suc c)..<Suc m])"
      using Suc.prems(2,4,5,6) by (intro Suc.hyps(1) [OF k lt]) simp_all
    have u: "[Suc c..<Suc m] = Suc c # [Suc (Suc c)..<Suc m]"
      using lt by (simp add: upt_conv_Cons)
    show ?thesis
      using Suc.prems(2,3) e lt ih
      by (subst connect_retry.simps)
        (simp add: inner_connect_def max_cxn_attempts_def backoff_def Let_def u del: upt_Suc)
  qed
qed


lemma connect_retry_slept:
  assumes "c < 10"
  shows "\<exists>n. c \<le> n \<and> n \<le> 10 \<and>
           snd (connect_retry create random c s slept) =
             slept @ map (backoff random) [Suc c..<Suc n]"
  using assms
proof (induction "10 - c" arbitrary: c s slept)
  case 0
  then show ?case by simp
next
  case (Suc k)
  have one: "slept @ [backoff random (Suc c)] =
               slept @ map (backoff random) [Suc c..<Suc (Suc c)]"
    by simp
  show ?case
  proof (cases "truthy (connection_props s)")
    case True
    have "snd (connect_retry create random c s slept) =
            slept @ map (backoff random) [Suc c..<Suc c]"
      by (simp add: connect_retry_unfold_truthy [OF True])
    with Suc.prems show ?thesis by (intro exI [of _ c]) simp
  next
    case nt: False
    show ?thesis
    proof (cases "inner_connect (create (Suc c)) s")
      case (Inl e)
      have "snd (connect_retry create random c s slept) =
              slept @ map (backoff random) [Suc c..<Suc (Suc c)]"
        by (simp add: connect_retry_unfold_raise [where create = create and c = c, OF nt Inl])
      with Suc.prems show ?thesis by (intro exI [of _ "Suc c"]) simp
    next
      case (Inr s')
      show ?thesis
      proof (cases "Suc c < 10")
        case False
        then have ge: "10 \<le> Suc c" by simp
        have "snd (connect_retry create random c s slept) =
                slept @ map (backoff random) [Suc c..<Suc (Suc c)]"
          by (simp add: connect_retry_unfold_last [where create = create and c = c, OF nt Inr ge])
        with Suc.prems show ?thesis by (intro exI [of _ "Suc c"]) simp
      next
        case lt: True
        have k: "k = 10 - Suc c" using Suc.hyps(2) by simp
        from Suc.hyps(1) [OF k lt, of s' "slept @ [backoff random (Suc c)]"]
        obtain n where n1: "Suc c \<le> n" and n2: "n \<le> 10" and
          n3: "snd (connect_retry create random (Suc c) s' (slept @ [backoff random (Suc c)])) =
             (slept @ [backoff random (Suc c)]) @ map (backoff random) [Suc (Suc c)..<Suc n]"
          by blast
        have "Suc c < Suc n" using n1 by simp
        then have u: "[Suc c..<Suc n] = Suc c # [Suc (Suc c)..<Suc n]"
          by (rule upt_conv_Cons)
        have "snd (connect_retry create random c s slept) =
                slept @ map (backoff random) [Suc c..<Suc n]"
          unfolding connect_retry_unfold_again [where create = create and c = c, OF nt Inr lt] n3 u by simp
        with n1 n2 show ?thesis by (intro exI [of _ n]) simp
      qed
    qed
  qed
qed

lemma reset_capture_loop_fail:
  "\<forall>i<n. \<not> reset i \<Longrightarrow>
   reset_capture_loop reset n sleep slept =
     (Inl ConnectFail, slept @ map (\<lambda>k. sleep * 2 ^ Suc k) [0..<n])"
proof (induction n arbitrary: reset sleep slept)
  case 0
  then show ?case by simp
next
  case (Suc n)
  have "reset_capture_loop (\<lambda>i. reset (Suc i)) n (sleep * 2) (slept @ [sleep * 2]) =
          (Inl ConnectFail, (slept @ [sleep * 2]) @ map (\<lambda>k. sleep * 2 * 2 ^ Suc k) [0..<n])"
    using Suc.prems by (intro Suc.IH) simp
  then show ?case
    using Suc.prems by (simp add: map_upt_Suc del: upt_Suc)
qed

lemma reset_capture_loop_ok:
  "m < n \<Longrightarrow> \<forall>i<m. \<not> reset i \<Longrightarrow> reset m \<Longrightarrow>
   reset_capture_loop reset n sleep slept =
     (Inr (), slept @ map (\<lambda>k. sleep * 2 ^ Suc k) [0..<m])"
proof (induction n arbitrary: m reset sleep slept)
  case 0
  then show ?case by simp
next
  case (Suc n)
  show ?case
  proof (cases m)
    case 0
    then show ?thesis using Suc.prems by simp
  next
    case (Suc m')
    have "reset_capture_loop (\<lambda>i. reset (Suc i)) n (sleep * 2) (slept @ [sleep * 2]) =
            (Inr (), (slept @ [sleep * 2]) @ map (\<lambda>k. sleep * 2 * 2 ^ Suc k) [0..<m'])"
      using Suc.prems Suc by (intro Suc.IH) auto
    moreover have "\<not> reset 0" using Suc.prems(2) Suc by simp
    ultimately show ?thesis
      using Suc by (simp add: map_upt_Suc del: upt_Suc)
  qed
qed


section \<open>Handshake and capture bootstrap: the claims\<close>

lemma backoff_fun: "backoff random = (\<lambda>k. real k + random k * 2)"
  by (simp add: fun_eq_iff backoff_def)

lemma connect_handshake_slept:
  "\<exists>n\<le>10. snd (connect_handshake create random s) =
      map (\<lambda>k. real k + random k * 2) [1..<Suc n]"
proof (cases "inner_connect (create 0) s")
  case (Inl e)
  then show ?thesis by (intro exI [of _ 0]) (simp add: connect_handshake_def)
next
  case (Inr s')
  from connect_retry_slept [of 0 create random s' "[]"]
  obtain n where "n \<le> 10"
    "snd (connect_retry create random 0 s' []) = map (backoff random) [Suc 0..<Suc n]"
    by auto
  then show ?thesis
    using Inr by (intro exI [of _ n]) (simp add: connect_handshake_def backoff_fun)
qed

text \<open>
  Claim C4, as the code has it. \<^verbatim>\<open>connect\<close> retries the handshake at most 10 times, and
  sleeps \<open>k + 2 * random k\<close> seconds before retry \<open>k\<close>, whatever the responses are. When
  the first call and all ten retries get an empty (false) response, the loop ends with
  the error "Could not connect to the environment". When the first \<open>m\<close> calls get an
  empty response and call \<open>m\<close>, with \<open>m < 10\<close>, gets a complete response of the client's
  protocol version, the loop ends without error after \<open>m\<close> retries, with the client id
  stored.
\<close>

theorem connect_handshake_retry_policy:
  "(\<exists>n\<le>10. snd (connect_handshake create random s) =
       map (\<lambda>k. real k + random k * 2) [1..<Suc n]) \<and>
   ((\<forall>i\<le>10. create i = EmptyResponse) \<longrightarrow>
      connect_handshake create random s =
        (Inl CouldNotConnect, map (\<lambda>k. real k + random k * 2) [1..<11])) \<and>
   (m < 10 \<and> (\<forall>i<m. create i = EmptyResponse) \<and> create m = DictResponse d \<and>
    usable d cid (client_version s) \<longrightarrow>
      connect_handshake create random s =
        (Inr (s\<lparr>connection_props := DictResponse d, self_client_id := Some cid\<rparr>),
         map (\<lambda>k. real k + random k * 2) [1..<Suc m]))"
proof (intro conjI impI)
  show "\<exists>n\<le>10. snd (connect_handshake create random s) =
       map (\<lambda>k. real k + random k * 2) [1..<Suc n]"
    by (rule connect_handshake_slept)
next
  assume a: "\<forall>i\<le>10. create i = EmptyResponse"
  then have c0: "inner_connect (create 0) s = Inr (s\<lparr>connection_props := EmptyResponse\<rparr>)"
    by (simp add: inner_connect_def)
  have "connect_retry create random 0 (s\<lparr>connection_props := EmptyResponse\<rparr>) [] =
          (Inl CouldNotConnect, [] @ map (backoff random) [Suc 0..<11])"
    using a by (intro connect_retry_exhaust) simp_all
  then show "connect_handshake create random s =
        (Inl CouldNotConnect, map (\<lambda>k. real k + random k * 2) [1..<11])"
    using c0 by (simp add: connect_handshake_def backoff_fun)
next
  assume a: "m < 10 \<and> (\<forall>i<m. create i = EmptyResponse) \<and> create m = DictResponse d \<and>
    usable d cid (client_version s)"
  let ?s' = "s\<lparr>connection_props := DictResponse d, self_client_id := Some cid\<rparr>"
  show "connect_handshake create random s =
        (Inr ?s', map (\<lambda>k. real k + random k * 2) [1..<Suc m])"
  proof (cases m)
    case 0
    then have c0: "inner_connect (create 0) s = Inr ?s'"
      using a by (simp add: inner_connect_usable)
    have "connect_retry create random 0 ?s' [] = (Inr ?s', [])"
      by (rule connect_retry_unfold_truthy) simp
    then show ?thesis using c0 0 by (simp add: connect_handshake_def)
  next
    case (Suc m')
    let ?s1 = "s\<lparr>connection_props := EmptyResponse\<rparr>"
    have c0: "inner_connect (create 0) s = Inr ?s1"
      using a Suc by (simp add: inner_connect_def)
    have "connect_retry create random 0 ?s1 [] =
            (Inr (?s1\<lparr>connection_props := DictResponse d, self_client_id := Some cid\<rparr>),
             [] @ map (backoff random) [Suc 0..<Suc m])"
      using a Suc by (intro connect_retry_success) simp_all
    then show ?thesis using c0 by (simp add: connect_handshake_def backoff_fun)
  qed
qed

text \<open>
  The sleeps are not non-decreasing: with the draws 0.9 and 0 the loop sleeps 2.8 and then
  2 seconds.
\<close>

lemmas conn_defs = connect_handshake_def inner_connect_def fresh_connection_def
  good_props_def max_cxn_attempts_def Let_def

theorem handshake_backoff_not_monotone:
  "snd (connect_handshake
          (\<lambda>i. if i < 2 then EmptyResponse else DictResponse (good_props ''1''))
          (\<lambda>i. if i = 1 then 9 / 10 else 0) (fresh_connection ''1'')) = [14 / 5, 2] \<and>
   \<not> sorted [14 / 5, 2 :: real]"
  by (simp add: conn_defs connect_retry.simps)

text \<open>
  Two more runs of the loop: a complete response to the tenth retry is followed by the
  error all the same, and a non-empty response whose \<open>max_capture_resolution\<close> is false
  ends the loop at once, without a retry and without a client id.
\<close>

lemma connect_last_retry_success_raises:
  "fst (connect_handshake
          (\<lambda>i. if i < 10 then EmptyResponse else DictResponse (good_props ''1''))
          (\<lambda>i. 0) (fresh_connection ''1'')) = Inl CouldNotConnect"
  by (simp add: conn_defs connect_retry.simps)

lemma connect_false_capability_not_retried:
  "connect_handshake
     (\<lambda>i. DictResponse ((good_props ''1'')\<lparr>max_capture_resolution := Some 0\<rparr>))
     random (fresh_connection ''1'') =
   (Inr ((fresh_connection ''1'')\<lparr>connection_props :=
           DictResponse ((good_props ''1'')\<lparr>max_capture_resolution := Some 0\<rparr>)\<rparr>), [])"
  by (simp add: conn_defs connect_retry.simps)

theorem connect_handshake_retry_policy_witness:
  "list_all (\<lambda>i. (if i \<le> 10 then EmptyResponse else DictResponse (good_props ''1''))
                 = EmptyResponse) [0..<11] \<and>
   connect_handshake
     (\<lambda>i. if i \<le> 10 then EmptyResponse else DictResponse (good_props ''1''))
     (\<lambda>i. 1 / 2) (fresh_connection ''1'') =
     (Inl CouldNotConnect, [2, 3, 4, 5, 6, 7, 8, 9, 10, 11]) \<and>
   (2::nat) < 10 \<and>
   list_all (\<lambda>i. (if i < 2 then EmptyResponse else DictResponse (good_props ''1''))
                 = EmptyResponse) [0..<2] \<and>
   usable (good_props ''1'') 1 (client_version (fresh_connection ''1'')) \<and>
   connect_handshake
     (\<lambda>i. if i < 2 then EmptyResponse else DictResponse (good_props ''1''))
     (\<lambda>i. if i = 1 then 9 / 10 else 0) (fresh_connection ''1'') =
     (Inr ((fresh_connection ''1'')\<lparr>connection_props := DictResponse (good_props ''1''),
             self_client_id := Some 1\<rparr>), [14 / 5, 2])"
proof -
  let ?never = "\<lambda>i::nat. if i \<le> 10 then EmptyResponse else DictResponse (good_props ''1'')"
  let ?third = "\<lambda>i::nat. if i < 2 then EmptyResponse else DictResponse (good_props ''1'')"
  let ?draws = "\<lambda>i::nat. if i = 1 then 9 / 10 else (0::real)"
  have h1: "\<forall>i\<le>10. ?never i = EmptyResponse" by simp
  have h2: "(2::nat) < 10 \<and> (\<forall>i<2. ?third i = EmptyResponse) \<and>
            ?third 2 = DictResponse (good_props ''1'') \<and>
            usable (good_props ''1'') 1 (client_version (fresh_connection ''1''))"
    by (simp add: usable_def good_props_def fresh_connection_def)
  have l1: "list_all (\<lambda>i. ?never i = EmptyResponse) [0..<11]"
    using h1 by (simp add: list_all_iff)
  have l2: "list_all (\<lambda>i. ?third i = EmptyResponse) [0..<2]"
    by (simp add: list_all_iff)
  have e1: "map (\<lambda>k. real k + 1 / 2 * 2) [1..<11] = [2, 3, 4, 5, 6, 7, 8, 9, 10, 11]"
    by (simp add: upt_rec)
  have e2: "map (\<lambda>k. real k + ?draws k * 2) [1..<Suc 2] = [14 / 5, 2]"
    by (simp add: upt_rec)
  from connect_handshake_retry_policy
         [of ?never "\<lambda>i. 1 / 2" "fresh_connection ''1''" 0 "good_props ''1''" 1] h1
  have r1: "connect_handshake ?never (\<lambda>i. 1 / 2) (fresh_connection ''1'') =
              (Inl CouldNotConnect, map (\<lambda>k. real k + 1 / 2 * 2) [1..<11])"
    by blast
  from connect_handshake_retry_policy
         [of ?third ?draws "fresh_connection ''1''" 2 "good_props ''1''" 1] h2
  have r2: "connect_handshake ?third ?draws (fresh_connection ''1'') =
              (Inr ((fresh_connection ''1'')\<lparr>connection_props := DictResponse (good_props ''1''),
                      self_client_id := Some 1\<rparr>),
               map (\<lambda>k. real k + ?draws k * 2) [1..<Suc 2])"
    by blast
  from l1 l2 h2 r1 [unfolded e1] r2 [unfolded e2] show ?thesis by blast
qed

text \<open>
  Claim C5, as the code has it. \<^verbatim>\<open>reset_capture\<close> tries to bind the capture channel at
  most 10 times. After each failed attempt, the tenth included, it doubles the sleep and
  then sleeps, so the sleeps are 0.2, 0.4, 0.8, ... seconds (\<open>0.1 * 2 ^ (k + 1)\<close> after
  failed attempt \<open>k\<close>, counted from 0). Ten failed attempts end in the connect-failure
  error; a successful attempt ends the loop without error.
\<close>

theorem reset_capture_backoff:
  "((\<forall>i<10. \<not> reset i) \<longrightarrow>
      reset_capture reset = (Inl ConnectFail, map (\<lambda>k. 1 / 10 * 2 ^ Suc k) [0..<10])) \<and>
   (m < 10 \<and> (\<forall>i<m. \<not> reset i) \<and> reset m \<longrightarrow>
      reset_capture reset = (Inr (), map (\<lambda>k. 1 / 10 * 2 ^ Suc k) [0..<m]))"
proof (intro conjI impI)
  assume a: "\<forall>i<10. \<not> reset i"
  have "reset_capture_loop reset 10 (1 / 10) [] =
          (Inl ConnectFail, [] @ map (\<lambda>k. 1 / 10 * 2 ^ Suc k) [0..<10])"
    using a by (intro reset_capture_loop_fail) simp
  then show "reset_capture reset =
               (Inl ConnectFail, map (\<lambda>k. 1 / 10 * 2 ^ Suc k) [0..<10])"
    by (simp add: reset_capture_def)
next
  assume a: "m < 10 \<and> (\<forall>i<m. \<not> reset i) \<and> reset m"
  have "reset_capture_loop reset 10 (1 / 10) [] =
          (Inr (), [] @ map (\<lambda>k. 1 / 10 * 2 ^ Suc k) [0..<m])"
    using a by (intro reset_capture_loop_ok) simp_all
  then show "reset_capture reset = (Inr (), map (\<lambda>k. 1 / 10 * 2 ^ Suc k) [0..<m])"
    by (simp add: reset_capture_def)
qed

theorem reset_capture_backoff_witness:
  "list_all (\<lambda>i. \<not> False) [0..<10] \<and>
   reset_capture (\<lambda>i. False) =
     (Inl ConnectFail,
      [2 / 10, 4 / 10, 8 / 10, 16 / 10, 32 / 10, 64 / 10, 128 / 10, 256 / 10, 512 / 10,
       1024 / 10]) \<and>
   (3::nat) < 10 \<and> list_all (\<lambda>i. \<not> 3 \<le> i) [0..<3] \<and> (3::nat) \<le> 3 \<and>
   reset_capture (\<lambda>i. 3 \<le> i) = (Inr (), [2 / 10, 4 / 10, 8 / 10])"
proof -
  have h1: "\<forall>i<10. \<not> (\<lambda>i::nat. False) i" by simp
  have h2: "(3::nat) < 10 \<and> (\<forall>i<3. \<not> (\<lambda>i::nat. 3 \<le> i) i) \<and> (\<lambda>i::nat. 3 \<le> i) 3" by simp
  have e1: "map (\<lambda>k. 1 / 10 * 2 ^ Suc k) [0..<10] =
              [2 / 10, 4 / 10, 8 / 10, 16 / 10, 32 / 10, 64 / 10, 128 / 10, 256 / 10,
               512 / 10, 1024 / 10 :: real]"
    by (simp add: upt_rec)
  have e2: "map (\<lambda>k. 1 / 10 * 2 ^ Suc k) [0..<3] = [2 / 10, 4 / 10, 8 / 10 :: real]"
    by (simp add: upt_rec)
  from reset_capture_backoff [of "\<lambda>i. False" 0] h1
  have r1: "reset_capture (\<lambda>i. False) =
              (Inl ConnectFail, map (\<lambda>k. 1 / 10 * 2 ^ Suc k) [0..<10])"
    by blast
  from reset_capture_backoff [of "\<lambda>i. 3 \<le> i" 3] h2
  have r2: "reset_capture (\<lambda>i. 3 \<le> i) = (Inr (), map (\<lambda>k. 1 / 10 * 2 ^ Suc k) [0..<3])"
    by blast
  have l: "list_all (\<lambda>i::nat. \<not> False) [0..<10]" "list_all (\<lambda>i::nat. \<not> 3 \<le> i) [0..<3]"
    by (simp_all add: list_all_iff)
  from l r1 [unfolded e1] r2 [unfolded e2] show ?thesis by simp
qed

text \<open>
  The first sleep is 0.2 seconds, not 0.1, and ten failures sleep ten times.
\<close>

theorem capture_backoff_first_sleep:
  "reset_capture (\<lambda>i. 1 \<le> i) = (Inr (), [2 / 10]) \<and> [2 / 10] \<noteq> [1 / 10 :: real] \<and>
   snd (reset_capture (\<lambda>i. 2 \<le> i)) = [2 / 10, 4 / 10] \<and>
   length (snd (reset_capture (\<lambda>i. False))) = 10"
  by (simp add: reset_capture_def numeral_nat)


section \<open>The episode step: the claims\<close>

lemmas calc_defs = get_speed_reward_def get_lane_deviation_penalty_def
  get_gforce_penalty_def get_progress_reward_def SPEED_LIMIT_KPH_def clip_def
lemmas env_defs = env_get_progress_reward_def env_get_gforce_penalty_def
  env_get_lane_deviation_penalty_def env_get_speed_reward_def get_reward_def
  compute_lap_statistics_def is_stuck_def step_def log_benchmark_trial_def
  reset_forward_progress_def
lemmas input_defs = init_env_def new_score_def no_telemetry_def readings_at_def

lemma dot_self_nonneg: "0 \<le> dot a a"
  unfolding dot_def by (induction a) auto

lemma dot_self_not_neg: "\<not> dot a a < 0"
  using dot_self_nonneg [of a] by simp

lemma env_get_gforce_penalty_total:
  "\<exists>v. env_get_gforce_penalty ob tp s =
     Inr (v, s\<lparr>score := (score s)\<lparr>gforce_penalty := gforce_penalty (score s) + v\<rparr>\<rparr>)"
  by (auto simp: env_get_gforce_penalty_def get_gforce_penalty_def Let_def dot_self_not_neg
      split: option.splits)

lemma env_get_progress_reward_cases:
  "env_get_progress_reward ob tp s =
     (if distance_along_route ob \<noteq> None \<and> tp = Some 0 then Inl ZeroDivisionError
      else Inr (0, case distance_along_route ob of
                     None \<Rightarrow> s
                   | Some d \<Rightarrow> s\<lparr>self_distance_along_route := d - start_distance_along_route s\<rparr>))"
  by (auto simp: env_get_progress_reward_def get_progress_reward_def Let_def
      split: option.splits)

lemma get_reward_grace:
  "clock - self_start_time s < 25 / 10 \<Longrightarrow> get_reward obz t clock s = Inr (0, s)"
  by (cases obz) (simp_all add: get_reward_def Let_def)

lemma log_benchmark_trial_Inr:
  assumes "log_benchmark_trial t s = Inr s'"
  shows "s' = s\<lparr>score := (score s)\<lparr>end_time := Some t\<rparr>,
                 trial_scores := trial_scores s @ [(score s)\<lparr>end_time := Some t\<rparr>]\<rparr>"
  using assms by (simp add: log_benchmark_trial_def Let_def split: if_splits)

lemma log_benchmark_trial_total:
  "log_benchmark_trial t s = Inr s' \<Longrightarrow> total (score s') = total (score s)"
  by (drule log_benchmark_trial_Inr) simp

lemma compute_lap_statistics_total:
  "compute_lap_statistics t d obz s = Inr (d', s') \<Longrightarrow> total (score s') = total (score s)"
  by (auto simp: compute_lap_statistics_def Let_def
      split: option.splits if_splits sum.splits dest!: log_benchmark_trial_Inr)

lemma is_stuck_total:
  "is_stuck tbw ts obz s = Inr (b, s') \<Longrightarrow> total (score s') = total (score s)"
  by (auto simp: is_stuck_def Let_def reset_forward_progress_def
      split: option.splits if_splits sum.splits dest!: log_benchmark_trial_Inr)

lemma step_Inr:
  assumes "get_reward obz (now ts) (reward_clock ts) s = Inr (r0, s1)"
    and "step tbw ts obz s = Inr (r, d, s')"
  obtains d2 s2 b s4 where
    "compute_lap_statistics (lap_trial_clock ts) False obz s1 = Inr (d2, s2)"
    "is_stuck tbw ts obz (s2\<lparr>prev_step_time := Some (now ts)\<rparr>) = Inr (b, s4)"
    "s' = s4\<lparr>step_num := step_num s4 + 1\<rparr>"
  using assms by (auto simp: step_def Let_def split: sum.splits)

lemma step_total:
  assumes "get_reward obz (now ts) (reward_clock ts) s = Inr (r0, s1)"
    and "step tbw ts obz s = Inr (r, d, s')"
  shows "total (score s') = total (score s1)"
proof -
  from assms obtain d2 s2 b s4 where
    c: "compute_lap_statistics (lap_trial_clock ts) False obz s1 = Inr (d2, s2)"
    and st: "is_stuck tbw ts obz (s2\<lparr>prev_step_time := Some (now ts)\<rparr>) = Inr (b, s4)"
    and s': "s' = s4\<lparr>step_num := step_num s4 + 1\<rparr>"
    by (rule step_Inr)
  from compute_lap_statistics_total [OF c] is_stuck_total [OF st] s' show ?thesis by simp
qed

lemma step_not_stuck:
  assumes "get_reward obz (now ts) (reward_clock ts) s = Inr (r0, s1)"
    and "compute_lap_statistics (lap_trial_clock ts) False obz s1 = Inr (done, s2)"
    and "is_stuck tbw ts obz (s2\<lparr>prev_step_time := Some (now ts)\<rparr>) = Inr (False, s4)"
  shows "step tbw ts obz s = Inr (r0, done, s4\<lparr>step_num := step_num s4 + 1\<rparr>)"
  using assms by (simp add: step_def Let_def)

lemma step_stuck:
  assumes "get_reward obz (now ts) (reward_clock ts) s = Inr (r0, s1)"
    and "compute_lap_statistics (lap_trial_clock ts) False obz s1 = Inr (done, s2)"
    and "is_stuck tbw ts obz (s2\<lparr>prev_step_time := Some (now ts)\<rparr>) = Inr (True, s4)"
  shows "step tbw ts obz s = Inr (r0 + 10000, True, s4\<lparr>step_num := step_num s4 + 1\<rparr>)"
  using assms by (simp add: step_def Let_def)

text \<open>
  Claim C9, as the code has it. On a step whose clock reading in \<^verbatim>\<open>get_reward\<close> is less
  than 2.5 seconds after the episode start, \<^verbatim>\<open>get_reward\<close> returns 0 whatever the
  observation holds and leaves the environment, the score total included, as it is; the
  step leaves the score total unchanged; and when the stuck detector does not report
  stuck, the reward that the step returns is 0.
\<close>

theorem grace_period_reward:
  assumes "reward_clock ts - self_start_time s < 25 / 10"
  shows "get_reward obz (now ts) (reward_clock ts) s = Inr (0, s) \<and>
         (\<forall>r d s'. step tbw ts obz s = Inr (r, d, s') \<longrightarrow>
                    total (score s') = total (score s)) \<and>
         (\<forall>done s2 s4.
            compute_lap_statistics (lap_trial_clock ts) False obz s = Inr (done, s2) \<and>
            is_stuck tbw ts obz (s2\<lparr>prev_step_time := Some (now ts)\<rparr>) = Inr (False, s4) \<longrightarrow>
            step tbw ts obz s = Inr (0, done, s4\<lparr>step_num := step_num s4 + 1\<rparr>))"
proof -
  have g: "get_reward obz (now ts) (reward_clock ts) s = Inr (0, s)"
    using assms by (rule get_reward_grace)
  show ?thesis
    using g step_total [OF g] step_not_stuck [OF g] by blast
qed

text \<open>
  A step one second after the previous one, two seconds after the episode start, of a car
  driving at 500 cm/s: the reward is 0 and the total stays as it is. The same
  observation on the same step of an episode that started ten seconds ago earns 3.6.
\<close>

theorem grace_period_reward_witness:
  "reward_clock (readings_at 10)
     - self_start_time ((init_env 8 8 8)\<lparr>prev_step_time := Some 9\<rparr>) < 25 / 10 \<and>
   get_reward (Some (no_telemetry\<lparr>speed := Some 500, throttle := Some 1\<rparr>))
     (now (readings_at 10)) (reward_clock (readings_at 10))
     ((init_env 8 8 8)\<lparr>prev_step_time := Some 9\<rparr>) =
     Inr (0, (init_env 8 8 8)\<lparr>prev_step_time := Some 9\<rparr>) \<and>
   step False (readings_at 10) (Some (no_telemetry\<lparr>speed := Some 500, throttle := Some 1\<rparr>))
     ((init_env 8 8 8)\<lparr>prev_step_time := Some 9\<rparr>) =
     Inr (0, False, (init_env 8 8 8)\<lparr>prev_step_time := Some 10,
                      last_forward_progress_time := 10, step_num := 1\<rparr>) \<and>
   total (score ((init_env 8 8 8)\<lparr>prev_step_time := Some 10,
                   last_forward_progress_time := 10, step_num := 1\<rparr>)) =
     total (score ((init_env 8 8 8)\<lparr>prev_step_time := Some 9\<rparr>)) \<and>
   (\<exists>s'. get_reward (Some (no_telemetry\<lparr>speed := Some 500, throttle := Some 1\<rparr>))
            (now (readings_at 10)) (reward_clock (readings_at 10))
            ((init_env 0 0 0)\<lparr>prev_step_time := Some 9\<rparr>) = Inr (18 / 5, s') \<and>
          total (score s') = 18 / 5)"
proof -
  let ?ob = "Some (no_telemetry\<lparr>speed := Some 500, throttle := Some 1\<rparr>)"
  let ?s = "(init_env 8 8 8)\<lparr>prev_step_time := Some 9\<rparr>"
  have h: "reward_clock (readings_at 10) - self_start_time ?s < 25 / 10"
    by (simp add: input_defs)
  have e: "step False (readings_at 10) ?ob ?s =
             Inr (0, False, (init_env 8 8 8)\<lparr>prev_step_time := Some 10,
                              last_forward_progress_time := 10, step_num := 1\<rparr>)"
    by (simp add: calc_defs env_defs input_defs Let_def)
  have o: "\<exists>s'. get_reward ?ob (now (readings_at 10)) (reward_clock (readings_at 10))
                  ((init_env 0 0 0)\<lparr>prev_step_time := Some 9\<rparr>) = Inr (18 / 5, s') \<and>
                total (score s') = 18 / 5"
    by (simp add: calc_defs env_defs input_defs Let_def)
  from grace_period_reward [OF h, of ?ob False] h e o show ?thesis by simp
qed

text \<open>
  Two seconds after the start, a crawling car with the throttle on is reported stuck, and
  the step returns the reward 10000, not 0.
\<close>

theorem grace_period_stuck_step:
  "reward_clock (readings_at 2) - self_start_time (init_env 0 0 0) < 25 / 10 \<and>
   (\<exists>s'. step False (readings_at 2)
            (Some (no_telemetry\<lparr>speed := Some 0, throttle := Some 1\<rparr>)) (init_env 0 0 0) =
          Inr (10000, True, s')) \<and>
   (10000 :: real) \<noteq> 0"
  by (simp add: calc_defs env_defs input_defs Let_def)

lemma get_reward_after_grace:
  assumes "\<not> clock - self_start_time s < 25 / 10"
    and "tp = (case prev_step_time s of Some p \<Rightarrow> Some (t - p) | None \<Rightarrow> None)"
  shows "get_reward (Some ob) t clock s =
     (case (case env_get_progress_reward ob tp s of
              Inl e \<Rightarrow> Inl e
            | Inr (progress_reward', s1) \<Rightarrow>
           (case env_get_gforce_penalty ob tp s1 of
              Inl e \<Rightarrow> Inl e
            | Inr (gforce_penalty', s2) \<Rightarrow>
           (case env_get_lane_deviation_penalty ob tp s2 of
              Inl e \<Rightarrow> Inl e
            | Inr (lane_deviation_penalty', s3) \<Rightarrow>
           (case env_get_speed_reward ob tp s3 of
              Inl e \<Rightarrow> Inl e
            | Inr (speed_reward', s4) \<Rightarrow>
                Inr (0 + (progress_reward' + speed_reward'
                            - gforce_penalty' - lane_deviation_penalty'), s4))))) of
        Inl e \<Rightarrow> Inl e
      | Inr (reward, s') \<Rightarrow>
          Inr (reward, s'\<lparr>score := (score s')\<lparr>total := total (score s') + reward\<rparr>\<rparr>))"
  unfolding assms(2) using assms(1) by (simp add: get_reward_def Let_def)

lemma get_reward_negative_lane_deviation:
  assumes "lane_deviation < 0"
    and "distance_to_center_of_lane ob = Some lane_deviation"
    and "\<not> clock - self_start_time s < 25 / 10"
  shows "get_reward (Some ob) t clock s =
           Inl (if distance_along_route ob \<noteq> None \<and> prev_step_time s = Some t
                then ZeroDivisionError else ValueError)"
proof -
  define tp where "tp = (case prev_step_time s of Some p \<Rightarrow> Some (t - p) | None \<Rightarrow> None)"
  note gr = get_reward_after_grace [OF assms(3) tp_def, of ob]
  have z: "tp = Some 0 \<longleftrightarrow> prev_step_time s = Some t"
    by (auto simp: tp_def split: option.splits)
  have l: "env_get_lane_deviation_penalty ob tp s2 = Inl ValueError" for s2
    using assms(1,2)
    by (simp add: env_get_lane_deviation_penalty_def get_lane_deviation_penalty_def)
  show ?thesis
  proof (cases "distance_along_route ob \<noteq> None \<and> prev_step_time s = Some t")
    case True
    then have "env_get_progress_reward ob tp s = Inl ZeroDivisionError"
      using z by (simp add: env_get_progress_reward_cases)
    then show ?thesis
      unfolding gr using True by simp
  next
    case False
    then obtain s1 where p: "env_get_progress_reward ob tp s = Inr (0, s1)"
      using z by (auto simp: env_get_progress_reward_cases)
    obtain v s2 where g: "env_get_gforce_penalty ob tp s1 = Inr (v, s2)"
      using env_get_gforce_penalty_total [of ob tp s1] by blast
    show ?thesis
      unfolding gr using False p g l [of s2] by simp
  qed
qed

text \<open>
  Claim C7. The lane deviation penalty raises \<^verbatim>\<open>ValueError\<close> for every negative lane
  deviation and the g-force penalty for every negative g-force magnitude, whatever
  \<open>time_passed\<close> is. The error is not caught on the way up: the environment's wrapper
  raises it, and past the grace period \<^verbatim>\<open>get_reward\<close> and the step end with an
  exception, the \<^verbatim>\<open>ValueError\<close> unless the progress term, computed first, has already
  divided by a zero \<open>time_passed\<close>.
\<close>

theorem negative_magnitude_raises:
  assumes "lane_deviation < 0" and "gforces < 0"
    and "distance_to_center_of_lane ob = Some lane_deviation"
    and "\<not> reward_clock ts - self_start_time s < 25 / 10"
  shows "get_lane_deviation_penalty lane_deviation time_passed = Inl ValueError \<and>
         get_gforce_penalty gforces time_passed = Inl ValueError \<and>
         env_get_lane_deviation_penalty ob time_passed s = Inl ValueError \<and>
         get_reward (Some ob) (now ts) (reward_clock ts) s =
           Inl (if distance_along_route ob \<noteq> None \<and> prev_step_time s = Some (now ts)
                then ZeroDivisionError else ValueError) \<and>
         step tbw ts (Some ob) s =
           Inl (if distance_along_route ob \<noteq> None \<and> prev_step_time s = Some (now ts)
                then ZeroDivisionError else ValueError)"
proof -
  have a: "get_lane_deviation_penalty lane_deviation time_passed = Inl ValueError"
    using assms(1) by (simp add: get_lane_deviation_penalty_def)
  have b: "get_gforce_penalty gforces time_passed = Inl ValueError"
    using assms(2) by (simp add: get_gforce_penalty_def)
  have c: "env_get_lane_deviation_penalty ob time_passed s = Inl ValueError"
    using a assms(3) by (simp add: env_get_lane_deviation_penalty_def)
  note d = get_reward_negative_lane_deviation [OF assms(1,3,4), of "now ts"]
  have e: "step tbw ts (Some ob) s =
           Inl (if distance_along_route ob \<noteq> None \<and> prev_step_time s = Some (now ts)
                then ZeroDivisionError else ValueError)"
    by (simp add: step_def d)
  from a b c d e show ?thesis by simp
qed

theorem negative_magnitude_raises_witness:
  "(- 5 :: real) < 0 \<and> (- 1 :: real) < 0 \<and>
   distance_to_center_of_lane (no_telemetry\<lparr>distance_to_center_of_lane := Some (- 5)\<rparr>)
     = Some (- 5) \<and>
   \<not> reward_clock (readings_at 10) - self_start_time (init_env 0 0 0) < 25 / 10 \<and>
   get_lane_deviation_penalty (- 5) (Some 1) = Inl ValueError \<and>
   get_gforce_penalty (- 1) (Some 1) = Inl ValueError \<and>
   get_reward (Some (no_telemetry\<lparr>distance_to_center_of_lane := Some (- 5)\<rparr>))
     (now (readings_at 10)) (reward_clock (readings_at 10)) (init_env 0 0 0) = Inl ValueError \<and>
   step False (readings_at 10)
     (Some (no_telemetry\<lparr>distance_to_center_of_lane := Some (- 5)\<rparr>)) (init_env 0 0 0) =
     Inl ValueError"
proof -
  let ?ob = "no_telemetry\<lparr>distance_to_center_of_lane := Some (- 5)\<rparr>"
  have h1: "(- 5 :: real) < 0" and h2: "(- 1 :: real) < 0" by simp_all
  have h3: "distance_to_center_of_lane ?ob = Some (- 5)" by simp
  have h4: "\<not> reward_clock (readings_at 10) - self_start_time (init_env 0 0 0) < 25 / 10"
    by (simp add: input_defs)
  have n: "distance_along_route ?ob = None" by (simp add: no_telemetry_def)
  from negative_magnitude_raises [OF h1 h2 h3 h4, of "Some 1" False] h1 h2 h3 h4 n
  show ?thesis by simp
qed


text \<open>Every entry of the trial list has an \<open>end_time\<close> once it is in the list.\<close>

lemma log_benchmark_trial_entries:
  "log_benchmark_trial t s = Inr s' \<Longrightarrow>
   list_all (\<lambda>entry. end_time entry \<noteq> None) (trial_scores s')"
  by (auto simp: log_benchmark_trial_def Let_def split: if_splits)

text \<open>
  The initial list is empty and a step that returns keeps every entry with its
  \<open>end_time\<close>.
\<close>

lemma env_wrappers_trial_scores:
  "env_get_progress_reward ob tp s = Inr (r, s') \<Longrightarrow> trial_scores s' = trial_scores s"
  "env_get_gforce_penalty ob tp s = Inr (r, s') \<Longrightarrow> trial_scores s' = trial_scores s"
  "env_get_lane_deviation_penalty ob tp s = Inr (r, s') \<Longrightarrow> trial_scores s' = trial_scores s"
  "env_get_speed_reward ob tp s = Inr (r, s') \<Longrightarrow> trial_scores s' = trial_scores s"
  by (auto simp: env_get_progress_reward_def env_get_gforce_penalty_def
      env_get_lane_deviation_penalty_def env_get_speed_reward_def Let_def
      split: option.splits sum.splits)

lemma get_reward_trial_scores:
  assumes "get_reward obz t clock s = Inr (r, s')"
  shows "trial_scores s' = trial_scores s"
proof (cases obz)
  case None
  with assms show ?thesis by (simp add: get_reward_def)
next
  case (Some ob)
  show ?thesis
  proof (cases "clock - self_start_time s < 25 / 10")
    case True
    with assms show ?thesis by (simp add: get_reward_grace)
  next
    case False
    define tp where "tp = (case prev_step_time s of Some p \<Rightarrow> Some (t - p) | None \<Rightarrow> None)"
    from assms [unfolded Some get_reward_after_grace [OF False tp_def]] show ?thesis
      by (auto split: sum.splits dest!: env_wrappers_trial_scores)
  qed
qed

lemma compute_lap_statistics_entries:
  assumes "compute_lap_statistics t d obz s = Inr (d', s')"
    and "list_all (\<lambda>entry. end_time entry \<noteq> None) (trial_scores s)"
  shows "list_all (\<lambda>entry. end_time entry \<noteq> None) (trial_scores s')"
  using assms
  by (auto simp: compute_lap_statistics_def Let_def
      split: option.splits if_splits sum.splits dest!: log_benchmark_trial_entries)

lemma is_stuck_entries:
  assumes "is_stuck tbw ts obz s = Inr (b, s')"
    and "list_all (\<lambda>entry. end_time entry \<noteq> None) (trial_scores s)"
  shows "list_all (\<lambda>entry. end_time entry \<noteq> None) (trial_scores s')"
  using assms
  by (auto simp: is_stuck_def Let_def reset_forward_progress_def
      split: option.splits if_splits sum.splits dest!: log_benchmark_trial_entries)

lemma step_entries:
  assumes "step tbw ts obz s = Inr (r, d, s')"
    and "list_all (\<lambda>entry. end_time entry \<noteq> None) (trial_scores s)"
  shows "list_all (\<lambda>entry. end_time entry \<noteq> None) (trial_scores s')"
proof -
  from assms(1) obtain r0 s1 where g: "get_reward obz (now ts) (reward_clock ts) s = Inr (r0, s1)"
    by (auto simp: step_def split: sum.splits)
  from step_Inr [OF g assms(1)] obtain d2 s2 b s4 where
    c: "compute_lap_statistics (lap_trial_clock ts) False obz s1 = Inr (d2, s2)"
    and st: "is_stuck tbw ts obz (s2\<lparr>prev_step_time := Some (now ts)\<rparr>) = Inr (b, s4)"
    and s': "s' = s4\<lparr>step_num := step_num s4 + 1\<rparr>"
    by blast
  have "list_all (\<lambda>entry. end_time entry \<noteq> None) (trial_scores s1)"
    using get_reward_trial_scores [OF g] assms(2) by simp
  then have "list_all (\<lambda>entry. end_time entry \<noteq> None) (trial_scores s2)"
    by (rule compute_lap_statistics_entries [OF c])
  then have "list_all (\<lambda>entry. end_time entry \<noteq> None)
               (trial_scores (s2\<lparr>prev_step_time := Some (now ts)\<rparr>))"
    by simp
  then have "list_all (\<lambda>entry. end_time entry \<noteq> None) (trial_scores s4)"
    by (rule is_stuck_entries [OF st])
  with s' show ?thesis by simp
qed




text \<open>
  The stuck detector finalizes trials as well, and does not look at the length of the
  list: trial 1000 recorded on a stuck step leaves the done flag false.
\<close>

lemma stuck_trial_leaves_done_flag:
  "\<exists>s'. is_stuck False (readings_at 5)
           (Some (no_telemetry\<lparr>speed := Some 0, throttle := Some 1\<rparr>))
           ((init_env 0 0 0)\<lparr>should_benchmark := True,
              trial_scores := replicate 999 ((new_score 0)\<lparr>end_time := Some 1\<rparr>)\<rparr>) =
         Inr (True, s') \<and>
       length (trial_scores s') = 1000 \<and> \<not> done_benchmarking s'"
  by (simp add: is_stuck_def log_benchmark_trial_def reset_forward_progress_def Let_def
      input_defs list_all_iff)

text \<open>
  Claim C1, at a step one second after the previous one, 10 seconds into the episode,
  whose observation holds only \<open>distance_along_route = 1000\<close>: the calculator's progress
  reward for the route-distance delta is 10, but the reward returned is 0 and the score's
  \<open>progress_reward\<close> and \<open>total\<close> stay 0. \<^verbatim>\<open>DeepDriveEnv.get_progress_reward\<close> calls the
  calculator and drops its result.
\<close>

theorem progress_term_discarded:
  "get_progress_reward (1000 - 0 - 0) (Some (10 - 9)) = Inr 10 \<and>
   (\<exists>s'. get_reward (Some (no_telemetry\<lparr>distance_along_route := Some 1000\<rparr>)) 10 10
            ((init_env 0 0 0)\<lparr>prev_step_time := Some 9\<rparr>) = Inr (0, s') \<and>
         progress_reward (score s') = 0 \<and> total (score s') = 0 \<and>
         self_distance_along_route s' = 1000)"
  by (simp add: calc_defs env_defs input_defs Let_def)

text \<open>The progress term of the environment is 0 on every step.\<close>

lemma env_get_progress_reward_zero:
  "env_get_progress_reward ob tp s = Inr (r, s') \<Longrightarrow>
   r = 0 \<and> progress_reward (score s') = progress_reward (score s)"
  by (auto simp: env_get_progress_reward_cases split: if_splits option.splits)

text \<open>
  Claim C2, at a step on which the stuck detector reports stuck (a car crawling at
  50 cm/s with the throttle on, 5 seconds after the last forward progress): the reward
  computed before the stuck check is 0.36, the step is reported done, and the reward
  returned is 10000.36, that is 10000 more, not less (\<^verbatim>\<open>reward -= -10000\<close>).
\<close>

theorem stuck_step_adds_penalty:
  "(\<exists>s1. get_reward (Some (no_telemetry\<lparr>speed := Some 50, throttle := Some 1\<rparr>)) 5 5
            ((init_env 0 0 0)\<lparr>prev_step_time := Some 4\<rparr>) = Inr (36 / 100, s1)) \<and>
   (\<exists>s'. step False (readings_at 5)
            (Some (no_telemetry\<lparr>speed := Some 50, throttle := Some 1\<rparr>))
            ((init_env 0 0 0)\<lparr>prev_step_time := Some 4\<rparr>) =
          Inr (36 / 100 + 10000, True, s'))"
  by (simp add: calc_defs env_defs input_defs Let_def)

text \<open>
  Claim C10, at an observation without \<open>speed\<close>: the reward computation and the lap
  statistics go through, but \<^verbatim>\<open>is_stuck\<close> reads \<^verbatim>\<open>obz['speed']\<close> and the step ends with
  \<^verbatim>\<open>KeyError\<close>; so does an observation of a crawling car without \<open>throttle\<close>.
\<close>

theorem stuck_check_missing_speed:
  "get_reward (Some (no_telemetry\<lparr>throttle := Some 1\<rparr>)) 10 10 (init_env 0 0 0) =
     Inr (0, init_env 0 0 0) \<and>
   compute_lap_statistics 10 False (Some (no_telemetry\<lparr>throttle := Some 1\<rparr>)) (init_env 0 0 0) =
     Inr (False, init_env 0 0 0) \<and>
   is_stuck False (readings_at 10) (Some (no_telemetry\<lparr>throttle := Some 1\<rparr>)) (init_env 0 0 0) =
     Inl KeyError \<and>
   step False (readings_at 10) (Some (no_telemetry\<lparr>throttle := Some 1\<rparr>)) (init_env 0 0 0) =
     Inl KeyError \<and>
   is_stuck False (readings_at 10) (Some (no_telemetry\<lparr>speed := Some 0\<rparr>)) (init_env 0 0 0) =
     Inl KeyError"
  by (simp add: calc_defs env_defs input_defs Let_def)


section \<open>Further properties\<close>

text \<open>
  Whatever the observation, \<^verbatim>\<open>DeepDriveEnv.get_progress_reward\<close> either raises the
  calculator's \<^verbatim>\<open>ZeroDivisionError\<close> or returns 0 and adds nothing to the score's
  \<open>progress_reward\<close>.
\<close>

theorem progress_term_always_zero:
  "(case env_get_progress_reward ob time_passed s of
      Inl e \<Rightarrow> e = ZeroDivisionError
    | Inr (r, s') \<Rightarrow> r = 0 \<and> progress_reward (score s') = progress_reward (score s))"
  by (auto simp: env_get_progress_reward_cases split: option.splits)

end
